theory Spec2Isabelle
  imports Main
begin

section \<open>Statement pages of the lender portal: data and effects\<close>

text \<open>
  The two server components \<^verbatim>\<open>InvestorStatementsPage\<close>
  (\<^verbatim>\<open>investor-statements/page.tsx\<close>) and \<^verbatim>\<open>InvestorStatementsAdminPage\<close> read the
  session and up to three tables through the Supabase client, then either call
  \<^verbatim>\<open>redirect\<close> or return a JSX tree. The client and \<^verbatim>\<open>redirect\<close> are
  libraries: the answers of the client are parameters of the model, and
  \<^verbatim>\<open>redirect\<close>, whose return type is \<^verbatim>\<open>never\<close>, ends the component by throwing.
\<close>

subsection \<open>Rows as the queries project them\<close>

text \<open>\<^verbatim>\<open>user.id\<close> of the authenticated session.\<close>

datatype user = User (user_id: string)

text \<open>
  \<^verbatim>\<open>select("id, contact_types_id")\<close> on \<^verbatim>\<open>contact\<close>: the key of the row and its
  nullable classification.
\<close>

record 'cid contact_row =
  contact_id :: 'cid
  contact_types_id :: "int option"

text \<open>\<^verbatim>\<open>select("role")\<close> on \<^verbatim>\<open>auth_user_profiles\<close>: a nullable string.\<close>

record profile_row =
  role :: "string option"

text \<open>\<^verbatim>\<open>select("org_id")\<close> on \<^verbatim>\<open>user_clerk_org_members\<close>.\<close>

datatype 'oid org_member = OrgMember (org_id: 'oid)

text \<open>
  What the Supabase client answers: the \<^verbatim>\<open>data\<close> field of each response,
  \<open>None\<close> for \<^verbatim>\<open>null\<close>. A \<^verbatim>\<open>.single()\<close> query answers \<^verbatim>\<open>null\<close> when no
  row (or more than one) matches; a list query answers \<^verbatim>\<open>null\<close> when it fails.
\<close>

record ('cid, 'oid) supabase =
  auth_user :: "user option"
  contact_by_clerk_id :: "string \<Rightarrow> 'cid contact_row option"
  auth_user_profiles_by_id :: "string \<Rightarrow> profile_row option"
  user_clerk_org_members_by_user_id :: "string \<Rightarrow> 'oid org_member list option"

subsection \<open>Effects: the queries issued, and what is thrown\<close>

datatype query =
    AuthGetUser
  | SelectContact string
  | SelectProfile string
  | SelectOrgMembers string

text \<open>
  \<^verbatim>\<open>redirect(path)\<close> throws the framework's redirect signal; reading a property
  of \<^verbatim>\<open>null\<close> throws a \<^verbatim>\<open>TypeError\<close>.
\<close>

datatype exn = NEXT_REDIRECT string | TypeError string

text \<open>
  An action runs on the log of the queries issued so far and gives back either what it
  threw or its value, with the extended log.
\<close>

type_synonym 'a action = "query list \<Rightarrow> (exn + 'a) \<times> query list"

definition ret :: "'a \<Rightarrow> 'a action" where
  "ret a = (\<lambda>log. (Inr a, log))"

definition throw :: "exn \<Rightarrow> 'a action" where
  "throw e = (\<lambda>log. (Inl e, log))"

text \<open>Sequencing (\<^verbatim>\<open>await\<close> and \<^verbatim>\<open>;\<close>): a throw skips the rest.\<close>

definition await :: "'a action \<Rightarrow> ('a \<Rightarrow> 'b action) \<Rightarrow> 'b action" where
  "await m f = (\<lambda>log. case m log of
                   (Inl e, log') \<Rightarrow> (Inl e, log')
                 | (Inr a, log') \<Rightarrow> f a log')"

definition issue :: "query \<Rightarrow> 'a \<Rightarrow> 'a action" where
  "issue q answer = (\<lambda>log. (Inr answer, log @ [q]))"

definition redirect :: "string \<Rightarrow> 'a action" where
  "redirect path = throw (NEXT_REDIRECT path)"

text \<open>\<^verbatim>\<open>user.id\<close>, a plain property read: it throws on \<^verbatim>\<open>null\<close>.\<close>

definition prop_id :: "user option \<Rightarrow> string action" where
  "prop_id u = (case u of
                  None \<Rightarrow> throw (TypeError ''id'')
                | Some v \<Rightarrow> ret (user_id v))"

text \<open>\<^verbatim>\<open>userOrgs.length\<close>, a plain property read: it throws on \<^verbatim>\<open>null\<close>.\<close>

definition prop_length :: "'a list option \<Rightarrow> nat action" where
  "prop_length xs = (case xs of
                       None \<Rightarrow> throw (TypeError ''length'')
                     | Some l \<Rightarrow> ret (length l))"

text \<open>The four queries of the two pages.\<close>

definition getUser :: "('cid, 'oid) supabase \<Rightarrow> user option action" where
  "getUser sb = issue AuthGetUser (auth_user sb)"

definition from_contact :: "('cid, 'oid) supabase \<Rightarrow> string \<Rightarrow> 'cid contact_row option action" where
  "from_contact sb uid = issue (SelectContact uid) (contact_by_clerk_id sb uid)"

definition from_auth_user_profiles :: "('cid, 'oid) supabase \<Rightarrow> string \<Rightarrow> profile_row option action" where
  "from_auth_user_profiles sb uid = issue (SelectProfile uid) (auth_user_profiles_by_id sb uid)"

definition from_user_clerk_org_members ::
  "('cid, 'oid) supabase \<Rightarrow> string \<Rightarrow> 'oid org_member list option action" where
  "from_user_clerk_org_members sb uid =
     issue (SelectOrgMembers uid) (user_clerk_org_members_by_user_id sb uid)"

subsection \<open>The rendered tree\<close>

text \<open>
  Only the elements the pages use. \<open>InvestorStatementsList\<close> carries its one prop,
  \<^verbatim>\<open>investorId\<close>, with \<open>None\<close> for \<^verbatim>\<open>undefined\<close> (a prop that is not passed
  reads as \<^verbatim>\<open>undefined\<close> as well).
\<close>

datatype 'cid jsx =
    Div "'cid jsx list"
  | H1 string
  | H2 string
  | P string
  | InvestorStatementsList "'cid option"
  | InvestorStatementsAdmin

text \<open>The \<^verbatim>\<open>investorId\<close> of every statements list of a tree, in document order.\<close>

primrec statement_lists :: "'cid jsx \<Rightarrow> 'cid option list" where
  "statement_lists (Div children) = concat (map statement_lists children)"
| "statement_lists (H1 t) = []"
| "statement_lists (H2 t) = []"
| "statement_lists (P t) = []"
| "statement_lists (InvestorStatementsList investorId) = [investorId]"
| "statement_lists InvestorStatementsAdmin = []"

section \<open>The pages\<close>

text \<open>
  \<^verbatim>\<open>InvestorStatementsPage\<close>, statement by statement. \<^verbatim>\<open>a?.f\<close> is
  \<open>Option.bind\<close> (or \<open>map_option\<close> for a column that is never null);
  \<^verbatim>\<open>c && x\<close> in JSX renders \<open>x\<close> when \<open>c\<close> holds and nothing otherwise;
  \<^verbatim>\<open>&&\<close> and \<^verbatim>\<open>||\<close> evaluate their right operand only when the left one does
  not decide.
\<close>

definition InvestorStatementsPage :: "('cid, 'oid) supabase \<Rightarrow> 'cid jsx action" where
  "InvestorStatementsPage sb =
     await (getUser sb) (\<lambda>user.
     await (if user = None then redirect ''/sign-in'' else ret ()) (\<lambda>_.
     await (prop_id user) (\<lambda>uid.
     await (from_contact sb uid) (\<lambda>contactData.
     let isInvestor = (Option.bind contactData contact_types_id = Some 12) in
     await (prop_id user) (\<lambda>uid.
     await (from_auth_user_profiles sb uid) (\<lambda>userData.
     let isAdmin = (Option.bind userData role = Some ''admin'') in
     await (if \<not> isInvestor \<and> \<not> isAdmin then redirect ''/dashboard'' else ret ()) (\<lambda>_.
     await (if isInvestor
            then await (prop_id user) (\<lambda>uid. from_user_clerk_org_members sb uid)
            else ret None) (\<lambda>userOrgs.
     await (if userOrgs = None then ret False
            else await (prop_length userOrgs) (\<lambda>n. ret (n > 0))) (\<lambda>showOrganizations.
     await (if userOrgs = None then ret True
            else await (prop_length userOrgs) (\<lambda>n. ret (n = 0 \<or> isAdmin))) (\<lambda>showSingle.
     ret (Div
       ([H1 ''Investor Statements'']
        @ (if showOrganizations
           then [Div [H2 ''Your Individual Statements'',
                      InvestorStatementsList (map_option contact_id contactData),
                      H2 ''Your Organization Statements'',
                      P ''As a member of organizations, you can also view statements for those entities.'',
                      InvestorStatementsList None]]
           else [])
        @ (if showSingle
           then [InvestorStatementsList
                   (if isInvestor then map_option contact_id contactData else None)]
           else [])))))))))))))"

definition InvestorStatementsAdminPage :: "('cid, 'oid) supabase \<Rightarrow> 'cid jsx action" where
  "InvestorStatementsAdminPage sb =
     await (getUser sb) (\<lambda>user.
     await (if user = None then redirect ''/sign-in'' else ret ()) (\<lambda>_.
     await (prop_id user) (\<lambda>uid.
     await (from_auth_user_profiles sb uid) (\<lambda>userData.
     let isAdmin = (Option.bind userData role = Some ''admin'') in
     await (if \<not> isAdmin then redirect ''/dashboard'' else ret ()) (\<lambda>_.
     ret (Div [InvestorStatementsAdmin]))))))"

section \<open>What the claims speak about\<close>

subsection \<open>The resolved principal\<close>

text \<open>
  The values the pages read off the rows of the signed-in user: \<^verbatim>\<open>userData?.role\<close>,
  \<^verbatim>\<open>contactData?.contact_types_id\<close>, \<^verbatim>\<open>contactData?.id\<close> and the membership
  rows. An absent row and a null column both read as \<open>None\<close>.
\<close>

definition principal_role :: "('cid, 'oid) supabase \<Rightarrow> user \<Rightarrow> string option" where
  "principal_role sb u = Option.bind (auth_user_profiles_by_id sb (user_id u)) role"

definition principal_contact_type :: "('cid, 'oid) supabase \<Rightarrow> user \<Rightarrow> int option" where
  "principal_contact_type sb u =
     Option.bind (contact_by_clerk_id sb (user_id u)) contact_types_id"

definition principal_contact_id :: "('cid, 'oid) supabase \<Rightarrow> user \<Rightarrow> 'cid option" where
  "principal_contact_id sb u = map_option contact_id (contact_by_clerk_id sb (user_id u))"

definition memberships :: "('cid, 'oid) supabase \<Rightarrow> user \<Rightarrow> 'oid org_member list option" where
  "memberships sb u = user_clerk_org_members_by_user_id sb (user_id u)"

subsection \<open>The observable outcome\<close>

text \<open>
  What a run of the investor page shows: the signal it threw, or the
  \<^verbatim>\<open>investorId\<close> of each statements list it rendered, in document order. A list
  rendered with \<open>None\<close> is not filtered by investor.
\<close>

definition outcome :: "(exn + 'cid jsx) \<times> query list \<Rightarrow> exn + 'cid option list" where
  "outcome r = (case fst r of Inl e \<Rightarrow> Inl e | Inr tree \<Rightarrow> Inr (statement_lists tree))"

subsection \<open>Concrete snapshots\<close>

text \<open>No session.\<close>

definition no_session :: "(int, string) supabase" where
  "no_session =
     \<lparr>auth_user = None,
      contact_by_clerk_id = Map.empty,
      auth_user_profiles_by_id = Map.empty,
      user_clerk_org_members_by_user_id = Map.empty\<rparr>"

text \<open>A signed-in contact of type 7 with no profile row.\<close>

definition standard_user :: "(int, string) supabase" where
  "standard_user =
     \<lparr>auth_user = Some (User ''u1''),
      contact_by_clerk_id = [''u1'' \<mapsto> \<lparr>contact_id = 3, contact_types_id = Some 7\<rparr>],
      auth_user_profiles_by_id = Map.empty,
      user_clerk_org_members_by_user_id = Map.empty\<rparr>"

text \<open>An admin with no contact row.\<close>

definition admin_only :: "(int, string) supabase" where
  "admin_only =
     \<lparr>auth_user = Some (User ''u2''),
      contact_by_clerk_id = Map.empty,
      auth_user_profiles_by_id = [''u2'' \<mapsto> \<lparr>role = Some ''admin''\<rparr>],
      user_clerk_org_members_by_user_id = Map.empty\<rparr>"

text \<open>An investor who is a member of two organizations.\<close>

definition investor_member :: "(int, string) supabase" where
  "investor_member =
     \<lparr>auth_user = Some (User ''u3''),
      contact_by_clerk_id = [''u3'' \<mapsto> \<lparr>contact_id = 5, contact_types_id = Some 12\<rparr>],
      auth_user_profiles_by_id = [''u3'' \<mapsto> \<lparr>role = Some ''standard''\<rparr>],
      user_clerk_org_members_by_user_id = [''u3'' \<mapsto> [OrgMember ''org_a'', OrgMember ''org_b'']]\<rparr>"

text \<open>An admin who is also an investor, member of no organization.\<close>

definition admin_investor :: "(int, string) supabase" where
  "admin_investor =
     \<lparr>auth_user = Some (User ''u4''),
      contact_by_clerk_id = [''u4'' \<mapsto> \<lparr>contact_id = 7, contact_types_id = Some 12\<rparr>],
      auth_user_profiles_by_id = [''u4'' \<mapsto> \<lparr>role = Some ''admin''\<rparr>],
      user_clerk_org_members_by_user_id = [''u4'' \<mapsto> []]\<rparr>"

text \<open>An investor with a null role, member of no organization.\<close>

definition investor_alone :: "(int, string) supabase" where
  "investor_alone =
     \<lparr>auth_user = Some (User ''u5''),
      contact_by_clerk_id = [''u5'' \<mapsto> \<lparr>contact_id = 11, contact_types_id = Some 12\<rparr>],
      auth_user_profiles_by_id = [''u5'' \<mapsto> \<lparr>role = None\<rparr>],
      user_clerk_org_members_by_user_id = [''u5'' \<mapsto> []]\<rparr>"

text \<open>A second admin investor without memberships, and one with a membership.\<close>

definition admin_investor_unaffiliated :: "(int, string) supabase" where
  "admin_investor_unaffiliated =
     \<lparr>auth_user = Some (User ''u6''),
      contact_by_clerk_id = [''u6'' \<mapsto> \<lparr>contact_id = 41, contact_types_id = Some 12\<rparr>],
      auth_user_profiles_by_id = [''u6'' \<mapsto> \<lparr>role = Some ''admin''\<rparr>],
      user_clerk_org_members_by_user_id = [''u6'' \<mapsto> []]\<rparr>"

definition admin_investor_member :: "(int, string) supabase" where
  "admin_investor_member =
     \<lparr>auth_user = Some (User ''u7''),
      contact_by_clerk_id = [''u7'' \<mapsto> \<lparr>contact_id = 42, contact_types_id = Some 12\<rparr>],
      auth_user_profiles_by_id = [''u7'' \<mapsto> \<lparr>role = Some ''admin''\<rparr>],
      user_clerk_org_members_by_user_id = [''u7'' \<mapsto> [OrgMember ''org_c'']]\<rparr>"

text \<open>The same admin with the investor contact row present, and with it absent.\<close>

definition admin_contact_present :: "(int, string) supabase" where
  "admin_contact_present =
     \<lparr>auth_user = Some (User ''u8''),
      contact_by_clerk_id = [''u8'' \<mapsto> \<lparr>contact_id = 9, contact_types_id = Some 12\<rparr>],
      auth_user_profiles_by_id = [''u8'' \<mapsto> \<lparr>role = Some ''admin''\<rparr>],
      user_clerk_org_members_by_user_id = [''u8'' \<mapsto> []]\<rparr>"

definition admin_contact_absent :: "(int, string) supabase" where
  "admin_contact_absent = admin_contact_present\<lparr>contact_by_clerk_id := Map.empty\<rparr>"

text \<open>
  Two snapshots that agree on the rows of user \<open>u9\<close> and differ on the rows of
  another user.
\<close>

definition snapshot_a :: "(int, string) supabase" where
  "snapshot_a =
     \<lparr>auth_user = Some (User ''u9''),
      contact_by_clerk_id = [''u9'' \<mapsto> \<lparr>contact_id = 13, contact_types_id = Some 12\<rparr>],
      auth_user_profiles_by_id = [''u9'' \<mapsto> \<lparr>role = Some ''standard''\<rparr>],
      user_clerk_org_members_by_user_id = [''u9'' \<mapsto> [OrgMember ''org_d'']]\<rparr>"

definition snapshot_b :: "(int, string) supabase" where
  "snapshot_b =
     \<lparr>auth_user = Some (User ''u9''),
      contact_by_clerk_id = [''u9'' \<mapsto> \<lparr>contact_id = 13, contact_types_id = Some 12\<rparr>,
                             ''u0'' \<mapsto> \<lparr>contact_id = 14, contact_types_id = None\<rparr>],
      auth_user_profiles_by_id = [''u9'' \<mapsto> \<lparr>role = Some ''standard''\<rparr>,
                                  ''u0'' \<mapsto> \<lparr>role = Some ''admin''\<rparr>],
      user_clerk_org_members_by_user_id = [''u9'' \<mapsto> [OrgMember ''org_d''],
                                           ''u0'' \<mapsto> []]\<rparr>"

section \<open>Evaluating the pages\<close>

lemmas action_defs =
  ret_def throw_def await_def issue_def redirect_def prop_id_def prop_length_def
  getUser_def from_contact_def from_auth_user_profiles_def from_user_clerk_org_members_def

lemmas principal_defs =
  principal_role_def principal_contact_type_def principal_contact_id_def memberships_def

text \<open>
  With a session, the investor page issues the contact and the profile query, and the
  membership query only for an investor; the four ways it can end.
\<close>

lemma investor_page_signed_in:
  assumes "auth_user sb = Some u"
  shows "InvestorStatementsPage sb log =
    (let uid = user_id u;
         isInvestor = (principal_contact_type sb u = Some 12);
         isAdmin = (principal_role sb u = Some ''admin'');
         log3 = log @ [AuthGetUser, SelectContact uid, SelectProfile uid]
     in if \<not> isInvestor \<and> \<not> isAdmin then (Inl (NEXT_REDIRECT ''/dashboard''), log3)
        else if \<not> isInvestor
          then (Inr (Div [H1 ''Investor Statements'', InvestorStatementsList None]), log3)
        else if memberships sb u = None \<or> memberships sb u = Some []
          then (Inr (Div [H1 ''Investor Statements'',
                          InvestorStatementsList (principal_contact_id sb u)]),
                log3 @ [SelectOrgMembers uid])
        else (Inr (Div ([H1 ''Investor Statements'',
                    Div [H2 ''Your Individual Statements'',
                      InvestorStatementsList (principal_contact_id sb u),
                      H2 ''Your Organization Statements'',
                      P ''As a member of organizations, you can also view statements for those entities.'',
                      InvestorStatementsList None]]
                  @ (if isAdmin then [InvestorStatementsList (principal_contact_id sb u)] else []))),
              log3 @ [SelectOrgMembers uid]))"
  using assms
  by (cases "user_clerk_org_members_by_user_id sb (user_id u)")
     (auto simp add: InvestorStatementsPage_def action_defs principal_defs Let_def)

lemma admin_page_signed_in:
  assumes "auth_user sb = Some u"
  shows "InvestorStatementsAdminPage sb log =
    (if principal_role sb u = Some ''admin''
     then Inr (Div [InvestorStatementsAdmin])
     else Inl (NEXT_REDIRECT ''/dashboard''),
     log @ [AuthGetUser, SelectProfile (user_id u)])"
  using assms
  by (simp add: InvestorStatementsAdminPage_def action_defs principal_defs)

lemma investor_has_contact_id:
  "principal_contact_type sb u = Some 12 \<Longrightarrow> principal_contact_id sb u \<noteq> None"
  by (auto simp add: principal_defs split: Option.bind_splits)

section \<open>Access decisions of the investor statements page\<close>

text \<open>
  C1. A signed-in principal whose role is not \<open>admin\<close> and whose contact type is not 12
  (either may be null, the row may be absent) is denied by the investor page: the run
  ends in the redirect to \<open>/dashboard\<close>, nothing is rendered, and no membership
  query is issued.
\<close>

theorem investor_page_denies_non_investor_non_admin:
  assumes "auth_user sb = Some u"
    and "principal_role sb u \<noteq> Some ''admin''"
    and "principal_contact_type sb u \<noteq> Some 12"
  shows "InvestorStatementsPage sb log =
           (Inl (NEXT_REDIRECT ''/dashboard''),
            log @ [AuthGetUser, SelectContact (user_id u), SelectProfile (user_id u)])"
  using assms by (simp add: investor_page_signed_in Let_def)

theorem investor_page_denies_non_investor_non_admin_witness:
  "auth_user standard_user = Some (User ''u1'')
   \<and> principal_role standard_user (User ''u1'') = None
   \<and> principal_contact_type standard_user (User ''u1'') = Some 7
   \<and> InvestorStatementsPage standard_user [] =
        (Inl (NEXT_REDIRECT ''/dashboard''),
         [AuthGetUser, SelectContact ''u1'', SelectProfile ''u1''])"
  using investor_page_denies_non_investor_non_admin [of standard_user "User ''u1''" "[]"]
  by (simp add: standard_user_def principal_defs)

text \<open>
  C3. An investor (contact type 12) with at least one membership row gets the individual
  list, filtered by the id of the contact row, followed by the organization list, which
  carries no filter whatever the membership rows are. (An admin among them gets the
  single view after the two.)
\<close>

theorem investor_with_memberships_two_lists:
  assumes "auth_user sb = Some u"
    and "principal_contact_type sb u = Some 12"
    and "memberships sb u = Some orgs"
    and "orgs \<noteq> []"
  shows "outcome (InvestorStatementsPage sb log) =
           Inr ([principal_contact_id sb u, None]
                @ (if principal_role sb u = Some ''admin''
                   then [principal_contact_id sb u] else []))
       \<and> principal_contact_id sb u \<noteq> None"
  using assms
  by (simp add: investor_page_signed_in Let_def outcome_def investor_has_contact_id)

theorem investor_with_memberships_two_lists_witness:
  "auth_user investor_member = Some (User ''u3'')
   \<and> principal_contact_type investor_member (User ''u3'') = Some 12
   \<and> memberships investor_member (User ''u3'') = Some [OrgMember ''org_a'', OrgMember ''org_b'']
   \<and> outcome (InvestorStatementsPage investor_member []) = Inr [Some 5, None]"
  using investor_with_memberships_two_lists
          [of investor_member "User ''u3''" "[OrgMember ''org_a'', OrgMember ''org_b'']" "[]"]
  by (simp add: investor_member_def principal_defs)

text \<open>
  C4, as stated, fails: for an admin who is also an investor and has no membership, the
  single list is filtered by the contact id; it is not the unfiltered list.
\<close>

theorem admin_precedence_counterexample:
  "principal_role admin_investor (User ''u4'') = Some ''admin''
   \<and> principal_contact_type admin_investor (User ''u4'') = Some 12
   \<and> memberships admin_investor (User ''u4'') = Some []
   \<and> outcome (InvestorStatementsPage admin_investor []) = Inr [Some 7]
   \<and> outcome (InvestorStatementsPage admin_investor []) \<noteq> Inr [None]"
  by (simp add: admin_investor_def InvestorStatementsPage_def action_defs principal_defs
        outcome_def)

text \<open>
  C4, amended. When a principal is both admin and investor and has no membership, the
  investor classification decides the filter: the page renders one list, filtered by
  the id of the contact row.
\<close>

theorem admin_investor_without_memberships_filtered:
  assumes "auth_user sb = Some u"
    and "principal_role sb u = Some ''admin''"
    and "principal_contact_type sb u = Some 12"
    and "memberships sb u = None \<or> memberships sb u = Some []"
  shows "outcome (InvestorStatementsPage sb log) = Inr [principal_contact_id sb u]
       \<and> principal_contact_id sb u \<noteq> None"
  using assms
  by (auto simp add: investor_page_signed_in Let_def outcome_def investor_has_contact_id)

theorem admin_investor_without_memberships_filtered_witness:
  "auth_user admin_investor = Some (User ''u4'')
   \<and> principal_role admin_investor (User ''u4'') = Some ''admin''
   \<and> principal_contact_type admin_investor (User ''u4'') = Some 12
   \<and> memberships admin_investor (User ''u4'') = Some []
   \<and> outcome (InvestorStatementsPage admin_investor []) = Inr [Some 7]"
  using admin_investor_without_memberships_filtered [of admin_investor "User ''u4''" "[]"]
  by (simp add: admin_investor_def principal_defs)

text \<open>
  C5. An investor who is not admin and has no membership (an empty answer, or none) gets
  exactly one list, filtered by the id of the contact row; after the contact and profile
  queries the membership query is the only other one issued.
\<close>

theorem investor_without_memberships_single_list:
  assumes "auth_user sb = Some u"
    and "principal_contact_type sb u = Some 12"
    and "principal_role sb u \<noteq> Some ''admin''"
    and "memberships sb u = None \<or> memberships sb u = Some []"
  shows "InvestorStatementsPage sb log =
           (Inr (Div [H1 ''Investor Statements'',
                      InvestorStatementsList (principal_contact_id sb u)]),
            log @ [AuthGetUser, SelectContact (user_id u), SelectProfile (user_id u),
                   SelectOrgMembers (user_id u)])
       \<and> outcome (InvestorStatementsPage sb log) = Inr [principal_contact_id sb u]
       \<and> principal_contact_id sb u \<noteq> None"
  using assms
  by (auto simp add: investor_page_signed_in Let_def outcome_def investor_has_contact_id)

theorem investor_without_memberships_single_list_witness:
  "auth_user investor_alone = Some (User ''u5'')
   \<and> principal_contact_type investor_alone (User ''u5'') = Some 12
   \<and> principal_role investor_alone (User ''u5'') = None
   \<and> memberships investor_alone (User ''u5'') = Some []
   \<and> outcome (InvestorStatementsPage investor_alone []) = Inr [Some 11]"
  using investor_without_memberships_single_list [of investor_alone "User ''u5''" "[]"]
  by (simp add: investor_alone_def principal_defs outcome_def)

text \<open>
  C10. Every investor id the page passes to a statements list is the id of an existing
  contact row of type 12; and for an investor the lists that receive the id (the
  individual list and the single view) always receive one: the only list without it is
  the organization list.
\<close>

theorem investor_id_comes_from_contact_row:
  assumes "auth_user sb = Some u"
    and "outcome (InvestorStatementsPage sb log) = Inr ls"
  shows "(\<forall>c. Some c \<in> set ls \<longrightarrow>
            (\<exists>row. contact_by_clerk_id sb (user_id u) = Some row
                 \<and> contact_types_id row = Some 12 \<and> contact_id row = c))
       \<and> (principal_contact_type sb u = Some 12 \<longrightarrow>
            (\<exists>row. contact_by_clerk_id sb (user_id u) = Some row
                 \<and> ls \<in> {[Some (contact_id row)],
                          [Some (contact_id row), None],
                          [Some (contact_id row), None, Some (contact_id row)]}))"
  using assms
  by (auto simp add: investor_page_signed_in Let_def outcome_def principal_defs
           split: if_splits option.splits Option.bind_splits)

theorem investor_id_comes_from_contact_row_witness:
  "auth_user admin_investor_member = Some (User ''u7'')
   \<and> outcome (InvestorStatementsPage admin_investor_member []) = Inr [Some 42, None, Some 42]
   \<and> contact_by_clerk_id admin_investor_member ''u7''
       = Some \<lparr>contact_id = 42, contact_types_id = Some 12\<rparr>"
  using investor_id_comes_from_contact_row
          [of admin_investor_member "User ''u7''" "[]" "[Some 42, None, Some 42]"]
  by (simp add: admin_investor_member_def InvestorStatementsPage_def action_defs outcome_def)

section \<open>Access decisions of the admin page, and admins on both pages\<close>

text \<open>
  C2. With a session, the admin page renders the admin component if and only if the
  role read from the profile row is \<open>admin\<close>; for any other role, a null role or an
  absent row it ends in the redirect to \<open>/dashboard\<close>.
\<close>

theorem admin_page_allows_iff_admin:
  assumes "auth_user sb = Some u"
  shows "((\<exists>tree. fst (InvestorStatementsAdminPage sb log) = Inr tree)
            \<longleftrightarrow> principal_role sb u = Some ''admin'')
       \<and> fst (InvestorStatementsAdminPage sb log) =
           (if principal_role sb u = Some ''admin''
            then Inr (Div [InvestorStatementsAdmin])
            else Inl (NEXT_REDIRECT ''/dashboard''))"
  using assms by (simp add: admin_page_signed_in)

theorem admin_page_allows_iff_admin_witness:
  "auth_user admin_only = Some (User ''u2'')
   \<and> principal_role admin_only (User ''u2'') = Some ''admin''
   \<and> principal_contact_type admin_only (User ''u2'') = None
   \<and> fst (InvestorStatementsAdminPage admin_only []) = Inr (Div [InvestorStatementsAdmin])"
  using admin_page_allows_iff_admin [of admin_only "User ''u2''" "[]"]
  by (simp add: admin_only_def principal_defs)

text \<open>
  C6, as stated, fails: an admin who is an investor without memberships gets the list
  filtered by the contact id only; no unfiltered list is rendered.
\<close>

theorem admin_scope_counterexample:
  "principal_role admin_investor_unaffiliated (User ''u6'') = Some ''admin''
   \<and> outcome (InvestorStatementsPage admin_investor_unaffiliated []) = Inr [Some 41]
   \<and> None \<notin> set [Some (41::int)]"
  by (simp add: admin_investor_unaffiliated_def InvestorStatementsPage_def action_defs
        principal_defs outcome_def)

text \<open>
  C6, amended. An admin is allowed on both pages and never denied. On the investor page
  the lists are: the unfiltered list for an admin who is not an investor; the list
  filtered by the contact id alone for an investor without memberships; the individual
  list, the unfiltered organization list and the single view filtered by the contact id
  for an investor with memberships.
\<close>

theorem admin_never_denied:
  assumes "auth_user sb = Some u"
    and "principal_role sb u = Some ''admin''"
  shows "fst (InvestorStatementsAdminPage sb log) = Inr (Div [InvestorStatementsAdmin])
       \<and> outcome (InvestorStatementsPage sb log) =
           Inr (if principal_contact_type sb u \<noteq> Some 12 then [None]
                else if memberships sb u = None \<or> memberships sb u = Some []
                  then [principal_contact_id sb u]
                else [principal_contact_id sb u, None, principal_contact_id sb u])
       \<and> (principal_contact_type sb u = Some 12 \<longrightarrow> principal_contact_id sb u \<noteq> None)"
  using assms
  by (simp add: investor_page_signed_in admin_page_signed_in Let_def outcome_def
        investor_has_contact_id)

theorem admin_never_denied_witness:
  "auth_user admin_investor_member = Some (User ''u7'')
   \<and> principal_role admin_investor_member (User ''u7'') = Some ''admin''
   \<and> fst (InvestorStatementsAdminPage admin_investor_member [])
       = Inr (Div [InvestorStatementsAdmin])
   \<and> outcome (InvestorStatementsPage admin_investor_member [])
       = Inr [Some 42, None, Some 42]"
  using admin_never_denied [of admin_investor_member "User ''u7''" "[]"]
  by (simp add: admin_investor_member_def principal_defs)

section \<open>Sessions, failures and determinism\<close>

text \<open>
  C7. Without a session both pages end in the redirect to \<open>/sign-in\<close>, and the
  session read is the only query they have issued by then.
\<close>

theorem no_session_redirects_to_sign_in:
  assumes "auth_user sb = None"
  shows "InvestorStatementsPage sb log = (Inl (NEXT_REDIRECT ''/sign-in''), log @ [AuthGetUser])
       \<and> InvestorStatementsAdminPage sb log
           = (Inl (NEXT_REDIRECT ''/sign-in''), log @ [AuthGetUser])"
  using assms
  by (simp add: InvestorStatementsPage_def InvestorStatementsAdminPage_def action_defs)

theorem no_session_redirects_to_sign_in_witness:
  "auth_user no_session = None
   \<and> InvestorStatementsPage no_session [] = (Inl (NEXT_REDIRECT ''/sign-in''), [AuthGetUser])
   \<and> InvestorStatementsAdminPage no_session []
       = (Inl (NEXT_REDIRECT ''/sign-in''), [AuthGetUser])"
  using no_session_redirects_to_sign_in [of no_session "[]"]
  by (simp add: no_session_def)

text \<open>
  C8, as stated, fails in its last part: an absent contact row does not always narrow
  the scope. The admin below gets the list filtered by contact id 9 while the investor
  contact row is there, and the unfiltered list once the row is absent.
\<close>

theorem absent_contact_row_counterexample:
  "contact_by_clerk_id admin_contact_absent ''u8'' = None
   \<and> auth_user_profiles_by_id admin_contact_absent ''u8''
       = auth_user_profiles_by_id admin_contact_present ''u8''
   \<and> outcome (InvestorStatementsPage admin_contact_present []) = Inr [Some 9]
   \<and> outcome (InvestorStatementsPage admin_contact_absent []) = Inr [None]"
  by (simp add: admin_contact_absent_def admin_contact_present_def InvestorStatementsPage_def
        action_defs outcome_def)

text \<open>
  C8, amended. For a resolved principal neither page throws a \<open>TypeError\<close>: each
  ends in the redirect to \<open>/dashboard\<close> or renders. An absent contact row reads as a
  null contact type and an absent profile row as a null role. With a null role the
  investor page denies, or renders the investor's own list (and the organization list
  when there are memberships). With a null contact type it denies a non-admin and
  renders the unfiltered list for an admin.
\<close>

theorem evaluation_never_throws:
  assumes "auth_user sb = Some u"
  shows "(outcome (InvestorStatementsPage sb log) = Inl (NEXT_REDIRECT ''/dashboard'')
          \<or> (\<exists>ls. outcome (InvestorStatementsPage sb log) = Inr ls))
       \<and> (fst (InvestorStatementsAdminPage sb log) = Inl (NEXT_REDIRECT ''/dashboard'')
          \<or> fst (InvestorStatementsAdminPage sb log) = Inr (Div [InvestorStatementsAdmin]))
       \<and> (contact_by_clerk_id sb (user_id u) = None \<longrightarrow> principal_contact_type sb u = None)
       \<and> (auth_user_profiles_by_id sb (user_id u) = None \<longrightarrow> principal_role sb u = None)
       \<and> (principal_contact_type sb u = None \<longrightarrow>
            outcome (InvestorStatementsPage sb log) =
              (if principal_role sb u = Some ''admin'' then Inr [None]
               else Inl (NEXT_REDIRECT ''/dashboard'')))
       \<and> (principal_role sb u = None \<longrightarrow>
            outcome (InvestorStatementsPage sb log) =
              (if principal_contact_type sb u \<noteq> Some 12 then Inl (NEXT_REDIRECT ''/dashboard'')
               else if memberships sb u = None \<or> memberships sb u = Some []
                 then Inr [principal_contact_id sb u]
               else Inr [principal_contact_id sb u, None]))"
  using assms
  by (simp add: investor_page_signed_in admin_page_signed_in Let_def outcome_def
        principal_role_def principal_contact_type_def)

theorem evaluation_never_throws_witness:
  "auth_user admin_contact_absent = Some (User ''u8'')
   \<and> contact_by_clerk_id admin_contact_absent ''u8'' = None
   \<and> principal_contact_type admin_contact_absent (User ''u8'') = None
   \<and> outcome (InvestorStatementsPage admin_contact_absent []) = Inr [None]"
  using evaluation_never_throws [of admin_contact_absent "User ''u8''" "[]"]
  by (simp add: admin_contact_absent_def admin_contact_present_def principal_defs)

text \<open>
  C9. The run of either page is a function of the session user and of the role, the
  contact type, the contact id and the membership rows read for that user: two snapshots
  that agree on these give the same result and issue the same queries, whatever else they
  hold, and the result does not depend on the queries issued before.
\<close>

theorem evaluation_deterministic:
  assumes "auth_user sb1 = Some u" and "auth_user sb2 = Some u"
    and "principal_role sb1 u = principal_role sb2 u"
    and "principal_contact_type sb1 u = principal_contact_type sb2 u"
    and "principal_contact_id sb1 u = principal_contact_id sb2 u"
    and "memberships sb1 u = memberships sb2 u"
  shows "InvestorStatementsPage sb1 log = InvestorStatementsPage sb2 log
       \<and> InvestorStatementsAdminPage sb1 log = InvestorStatementsAdminPage sb2 log
       \<and> fst (InvestorStatementsPage sb1 log1) = fst (InvestorStatementsPage sb2 log2)
       \<and> fst (InvestorStatementsAdminPage sb1 log1) = fst (InvestorStatementsAdminPage sb2 log2)"
  using assms
  by (simp add: investor_page_signed_in admin_page_signed_in Let_def)

theorem evaluation_deterministic_witness:
  "auth_user snapshot_a = Some (User ''u9'') \<and> auth_user snapshot_b = Some (User ''u9'')
   \<and> principal_role snapshot_a (User ''u9'') = principal_role snapshot_b (User ''u9'')
   \<and> principal_contact_type snapshot_a (User ''u9'')
       = principal_contact_type snapshot_b (User ''u9'')
   \<and> principal_contact_id snapshot_a (User ''u9'') = principal_contact_id snapshot_b (User ''u9'')
   \<and> memberships snapshot_a (User ''u9'') = memberships snapshot_b (User ''u9'')
   \<and> snapshot_a \<noteq> snapshot_b
   \<and> InvestorStatementsPage snapshot_a [] = InvestorStatementsPage snapshot_b []"
proof -
  have differ: "contact_by_clerk_id snapshot_a ''u0'' \<noteq> contact_by_clerk_id snapshot_b ''u0''"
    by (simp add: snapshot_a_def snapshot_b_def)
  then have "snapshot_a \<noteq> snapshot_b" by auto
  then show ?thesis
    using evaluation_deterministic [of snapshot_a "User ''u9''" snapshot_b "[]" "[]" "[]"]
    by (simp add: snapshot_a_def snapshot_b_def principal_defs)
qed

end
